theory Spec2Isabelle
  imports Main "HOL-Library.Signed_Division"
begin

section \<open>Nullable timestamps: the null and the zero family\<close>

text \<open>
  A shallow embedding of \<^verbatim>\<open>timestamp.go\<close> (package null) and
  \<^verbatim>\<open>zero/timestamp.go\<close> (package zero). Byte slices are strings, Go's
  \<^verbatim>\<open>int64\<close> is an \<open>int\<close> with the wrap-around written out (\<open>wrap64\<close>), Go's
  \<^verbatim>\<open>/\<close> and \<^verbatim>\<open>%\<close> are \<open>sdiv\<close> and \<open>smod\<close> (they truncate towards zero),
  a method with a pointer receiver returns the receiver's new state together with the
  error it returns (\<open>None\<close> is Go's \<^verbatim>\<open>nil\<close>).
\<close>

subsection \<open>Machine integers\<close>

definition wrap64 :: "int \<Rightarrow> int" where
  \<comment> \<open>the value an int64 holds after an operation whose exact result is the argument\<close>
  "wrap64 x = (x + 2 ^ 63) mod 2 ^ 64 - 2 ^ 63"

definition in_int64 :: "int \<Rightarrow> bool" where
  "in_int64 x = (- (2 ^ 63) \<le> x \<and> x < 2 ^ 63)"

subsection \<open>Errors\<close>

text \<open>
  The errors the decoders return. \<open>JSONError\<close> stands for both a syntax error and a
  type mismatch of the structured decoder (telling them apart takes a JSON scanner, and
  nothing below depends on which it is); \<open>Wrapped\<close> is \<^verbatim>\<open>fmt.Errorf("...: %w", err)\<close>.
\<close>

datatype error = JSONError | OverflowError | ParseError | Wrapped string error

subsection \<open>Decimal numbers (strconv)\<close>

definition digit_char :: "int \<Rightarrow> char" where
  "digit_char d = char_of (48 + d)"

function digits :: "int \<Rightarrow> string" where
  "digits n = (if n < 10 then [digit_char n] else digits (n div 10) @ [digit_char (n mod 10)])"
  by pat_completeness auto
termination
  by (relation "measure nat") auto

declare digits.simps [simp del]

definition FormatInt :: "int \<Rightarrow> string" where
  \<comment> \<open>\<^verbatim>\<open>strconv.FormatInt(n, 10)\<close>; \<^verbatim>\<open>json.Marshal\<close> of an int64 writes the same bytes\<close>
  "FormatInt n = (if n < 0 then CHR ''-'' # digits (- n) else digits n)"

definition is_digit :: "char \<Rightarrow> bool" where
  "is_digit c = (48 \<le> (of_char c :: int) \<and> (of_char c :: int) \<le> 57)"

definition digit_val :: "char \<Rightarrow> int" where
  "digit_val c = of_char c - 48"

definition digits_val :: "string \<Rightarrow> int" where
  "digits_val cs = foldl (\<lambda>acc c. acc * 10 + digit_val c) 0 cs"

definition ParseInt :: "string \<Rightarrow> error + int" where
  \<comment> \<open>\<^verbatim>\<open>strconv.ParseInt(s, 10, 64)\<close>: an optional sign, at least one digit, the int64 range\<close>
  "ParseInt s =
     (let neg = (s \<noteq> [] \<and> hd s = CHR ''-'');
          ds = (if s \<noteq> [] \<and> (hd s = CHR ''-'' \<or> hd s = CHR ''+'') then tl s else s)
      in if ds = [] \<or> \<not> list_all is_digit ds then Inl ParseError
         else let v = (if neg then - digits_val ds else digits_val ds)
              in if in_int64 v then Inr v else Inl OverflowError)"

definition json_Marshal_int64 :: "int \<Rightarrow> error + string" where
  \<comment> \<open>\<^verbatim>\<open>json.Marshal\<close> of an int64: the decimal number, never an error\<close>
  "json_Marshal_int64 n = Inr (FormatInt n)"

subsection \<open>Go's time.Time\<close>

text \<open>
  A \<^verbatim>\<open>time.Time\<close> is read through its accessors: \<open>sec\<close> is \<^verbatim>\<open>t.sec()\<close>, the
  seconds since January 1 of year 1, \<open>nsec\<close> is \<^verbatim>\<open>t.nsec()\<close>, in \<open>[0, 999999999]\<close>,
  \<open>mono\<close> is the monotonic clock reading when the value has one, and \<open>loc\<close> is the
  location pointer. \<^verbatim>\<open>setLoc\<close> stores the UTC location as the nil pointer, so a
  time in UTC has \<open>loc = UTC\<close>; \<open>Zone k\<close> is the pointer to any other location object.
  Two records are equal exactly when Go's \<^verbatim>\<open>==\<close> on the two structs is true.
\<close>

datatype location = UTC | Local | Zone nat

record time =
  sec :: int
  nsec :: int
  mono :: "int option"
  loc :: location

definition unixToInternal :: int where
  "unixToInternal = 62135596800"

definition internalToUnix :: int where
  "internalToUnix = - unixToInternal"

definition wallToInternal :: int where
  "wallToInternal = 59453308800"

definition Millisecond :: int where
  \<comment> \<open>\<^verbatim>\<open>time.Millisecond\<close>, in nanoseconds\<close>
  "Millisecond = 1000000"

definition time_zero :: time where
  \<comment> \<open>\<^verbatim>\<open>time.Time{}\<close>\<close>
  "time_zero = \<lparr>sec = 0, nsec = 0, mono = None, loc = UTC\<rparr>"

definition Time_IsZero :: "time \<Rightarrow> bool" where
  "Time_IsZero t = (sec t = 0 \<and> nsec t = 0)"

definition Time_Equal :: "time \<Rightarrow> time \<Rightarrow> bool" where
  \<comment> \<open>\<^verbatim>\<open>t.Equal(u)\<close>: the monotonic readings when both have one, else the wall clock\<close>
  "Time_Equal t u =
     (if mono t \<noteq> None \<and> mono u \<noteq> None then mono t = mono u
      else sec t = sec u \<and> nsec t = nsec u)"

definition unixSec :: "time \<Rightarrow> int" where
  "unixSec t = wrap64 (sec t + internalToUnix)"

definition Time_UnixNano :: "time \<Rightarrow> int" where
  "Time_UnixNano t = wrap64 (unixSec t * 1000000000 + nsec t)"

definition Time_UnixMilli :: "time \<Rightarrow> int" where
  "Time_UnixMilli t = wrap64 (unixSec t * 1000 + nsec t sdiv 1000000)"

definition stripMono :: "time \<Rightarrow> time" where
  "stripMono t = t\<lparr>mono := None\<rparr>"

definition Time_UTC :: "time \<Rightarrow> time" where
  \<comment> \<open>\<^verbatim>\<open>t.UTC()\<close> is \<^verbatim>\<open>t.setLoc(&utcLoc)\<close>: the reading is dropped, the pointer is nil\<close>
  "Time_UTC t = (stripMono t)\<lparr>loc := UTC\<rparr>"

definition time_Unix :: "int \<Rightarrow> int \<Rightarrow> time" where
  "time_Unix s n =
     (let (s', n') =
            (if n < 0 \<or> n \<ge> 1000000000
             then let k = n sdiv 1000000000;
                      s1 = wrap64 (s + k);
                      n1 = wrap64 (n - wrap64 (k * 1000000000))
                  in if n1 < 0 then (wrap64 (s1 - 1), wrap64 (n1 + 1000000000)) else (s1, n1)
             else (s, n))
      in \<lparr>sec = wrap64 (s' + unixToInternal), nsec = n', mono = None, loc = Local\<rparr>)"

definition time_UnixMilli :: "int \<Rightarrow> time" where
  "time_UnixMilli msec = time_Unix (msec sdiv 1000) (wrap64 ((msec smod 1000) * 1000000))"

definition addSec :: "time \<Rightarrow> int \<Rightarrow> time" where
  "addSec t d =
     (let dsec = wrap64 (sec t - wallToInternal + d)
      in if mono t \<noteq> None \<and> 0 \<le> dsec \<and> dsec \<le> 2 ^ 33 - 1
         then t\<lparr>sec := wallToInternal + dsec\<rparr>
         else let t' = stripMono t; sum = wrap64 (sec t' + d)
              in if (sum > sec t') = (d > 0) then t'\<lparr>sec := sum\<rparr>
                 else if d > 0 then t'\<lparr>sec := 2 ^ 63 - 1\<rparr>
                 else t'\<lparr>sec := - (2 ^ 63 - 1)\<rparr>)"

definition Time_Add :: "time \<Rightarrow> int \<Rightarrow> time" where
  \<comment> \<open>\<^verbatim>\<open>t.Add(d)\<close>, \<open>d\<close> a Duration in nanoseconds\<close>
  "Time_Add t d =
     (let dsec0 = d sdiv 1000000000;
          nsec0 = nsec t + d smod 1000000000;
          (dsec, nsec') =
            (if nsec0 \<ge> 1000000000 then (dsec0 + 1, nsec0 - 1000000000)
             else if nsec0 < 0 then (dsec0 - 1, nsec0 + 1000000000)
             else (dsec0, nsec0));
          t1 = addSec (t\<lparr>nsec := nsec'\<rparr>) dsec
      in case mono t1 of
           None \<Rightarrow> t1
         | Some m \<Rightarrow>
             let te = wrap64 (m + d)
             in if d < 0 \<and> te > m \<or> d > 0 \<and> te < m then stripMono t1
                else t1\<lparr>mono := Some te\<rparr>)"

definition Time_Location :: "time \<Rightarrow> location" where
  "Time_Location t = loc t"

subsection \<open>The 64-bit integer wrappers the timestamps decode through\<close>

text \<open>
  \<^verbatim>\<open>Int64\<close>, \<^verbatim>\<open>Int64From\<close> and the byte constant \<^verbatim>\<open>nullBytes\<close> are
  declared in files of the two packages other than the timestamp files; what they do
  is taken from the specification, each definition saying which sentence it follows.
  The timestamp decoders only read the error and the two fields of the result. The
  record is Go's \<^verbatim>\<open>sql.NullInt64\<close>; its flag is called \<open>IntValid\<close> here, since
  the timestamp's own flag is \<open>Valid\<close>.
\<close>

record NullInt64 =
  Int64 :: int
  IntValid :: bool

definition nullBytes :: string where
  \<comment> \<open>Modelled from the spec: the package constant \<^verbatim>\<open>nullBytes\<close>, "the literal null token".\<close>
  "nullBytes = ''null''"

definition json_int_literal :: "string \<Rightarrow> bool" where
  \<comment> \<open>Modelled from the spec: the "numeric literal" of an integer type, a JSON number
      without fraction and exponent, \<^verbatim>\<open>-?(0|[1-9][0-9]*)\<close>.\<close>
  "json_int_literal s =
     (let ds = (if s \<noteq> [] \<and> hd s = CHR ''-'' then tl s else s)
      in ds \<noteq> [] \<and> list_all is_digit ds \<and> (if hd ds = CHR ''0'' then length ds = 1 else True))"

definition json_quoted :: "string \<Rightarrow> string option" where
  \<comment> \<open>Modelled from the spec: the contents of a "quoted string", read without escapes.\<close>
  "json_quoted s =
     (if 2 \<le> length s \<and> hd s = CHR 0x22 \<and> last s = CHR 0x22
         \<and> list_all (\<lambda>c. c \<noteq> CHR 0x22 \<and> c \<noteq> CHR 0x5C) (butlast (tl s))
      then Some (butlast (tl s)) else None)"

definition json_int64 :: "string \<Rightarrow> error + int" where
  \<comment> \<open>Modelled from the spec: the literals the integer wrappers accept, "numeric literal
      for numeric types, quoted string for numeric types that also accept numeric
      strings"; "out-of-range numeric literals fail with an overflow error"; any other
      input is a syntax or a type error.\<close>
  "json_int64 data =
     (if json_int_literal data then ParseInt data
      else case json_quoted data of
             Some str \<Rightarrow> ParseInt str
           | None \<Rightarrow> Inl JSONError)"

definition null_Int64From :: "int \<Rightarrow> NullInt64" where
  \<comment> \<open>Modelled from the spec: \<^verbatim>\<open>null.Int64From\<close>, "from(value): always valid".\<close>
  "null_Int64From v = \<lparr>Int64 = v, IntValid = True\<rparr>"

definition null_Int64_UnmarshalJSON :: "NullInt64 \<Rightarrow> string \<Rightarrow> NullInt64 \<times> error option" where
  \<comment> \<open>Modelled from the spec: \<^verbatim>\<open>null.Int64.UnmarshalJSON\<close>, "accepts the literal null
      token: valid=false, value=zero. Accepts a type-appropriate literal: valid=true,
      parse into value"; "all decode errors leave the wrapper in the invalid/zero state".\<close>
  "null_Int64_UnmarshalJSON i data =
     (if data = nullBytes then (\<lparr>Int64 = 0, IntValid = False\<rparr>, None)
      else case json_int64 data of
             Inl e \<Rightarrow> (\<lparr>Int64 = 0, IntValid = False\<rparr>, Some e)
           | Inr v \<Rightarrow> (\<lparr>Int64 = v, IntValid = True\<rparr>, None))"

definition null_Int64_UnmarshalText :: "NullInt64 \<Rightarrow> string \<Rightarrow> NullInt64 \<times> error option" where
  \<comment> \<open>Modelled from the spec: \<^verbatim>\<open>null.Int64.UnmarshalText\<close>, "empty input: valid=false;
      literal "null": valid=false (back-compat shim); otherwise parse as the primitive;
      parse failure: error, wrapper left invalid".\<close>
  "null_Int64_UnmarshalText i text =
     (if text = [] \<or> text = ''null'' then (\<lparr>Int64 = 0, IntValid = False\<rparr>, None)
      else case ParseInt text of
             Inl e \<Rightarrow> (\<lparr>Int64 = 0, IntValid = False\<rparr>, Some e)
           | Inr v \<Rightarrow> (\<lparr>Int64 = v, IntValid = True\<rparr>, None))"

definition null_Int64_MarshalText :: "NullInt64 \<Rightarrow> error + string" where
  \<comment> \<open>Modelled from the spec: \<^verbatim>\<open>null.Int64.MarshalText\<close>, "valid=false: empty byte
      sequence; valid=true: textual form of value".\<close>
  "null_Int64_MarshalText i = (if \<not> IntValid i then Inr [] else Inr (FormatInt (Int64 i)))"

definition zero_Int64From :: "int \<Rightarrow> NullInt64" where
  \<comment> \<open>Modelled from the spec: \<^verbatim>\<open>zero.Int64From\<close>, "from(value): valid iff value != zero(T)".\<close>
  "zero_Int64From v = \<lparr>Int64 = v, IntValid = (v \<noteq> 0)\<rparr>"

definition zero_Int64_UnmarshalJSON :: "NullInt64 \<Rightarrow> string \<Rightarrow> NullInt64 \<times> error option" where
  \<comment> \<open>Modelled from the spec: \<^verbatim>\<open>zero.Int64.UnmarshalJSON\<close>, "null token OR the literal
      empty/zero form: valid=false, value=zero(T). Non-zero literal: valid = (parsed !=
      zero(T))".\<close>
  "zero_Int64_UnmarshalJSON i data =
     (if data = nullBytes then (\<lparr>Int64 = 0, IntValid = False\<rparr>, None)
      else case json_int64 data of
             Inl e \<Rightarrow> (\<lparr>Int64 = 0, IntValid = False\<rparr>, Some e)
           | Inr v \<Rightarrow> (\<lparr>Int64 = v, IntValid = (v \<noteq> 0)\<rparr>, None))"

definition zero_Int64_UnmarshalText :: "NullInt64 \<Rightarrow> string \<Rightarrow> NullInt64 \<times> error option" where
  \<comment> \<open>Modelled from the spec: \<^verbatim>\<open>zero.Int64.UnmarshalText\<close>, "text semantics mirror the
      null family", with the zero family's "valid = (parsed != zero(T))".\<close>
  "zero_Int64_UnmarshalText i text =
     (if text = [] \<or> text = ''null'' then (\<lparr>Int64 = 0, IntValid = False\<rparr>, None)
      else case ParseInt text of
             Inl e \<Rightarrow> (\<lparr>Int64 = 0, IntValid = False\<rparr>, Some e)
           | Inr v \<Rightarrow> (\<lparr>Int64 = v, IntValid = (v \<noteq> 0)\<rparr>, None))"

definition zero_Int64_MarshalText :: "NullInt64 \<Rightarrow> error + string" where
  \<comment> \<open>Modelled from the spec: \<^verbatim>\<open>zero.Int64.MarshalText\<close>, "invalid encodes to the zero
      literal instead of null/empty".\<close>
  "zero_Int64_MarshalText i = (if \<not> IntValid i then Inr ''0'' else Inr (FormatInt (Int64 i)))"

subsection \<open>The timestamp wrapper\<close>

text \<open>
  Both packages declare \<^verbatim>\<open>type Timestamp struct { sql.NullTime }\<close>: a time and a
  validity flag. The functions of package null carry the prefix \<open>null_\<close>, those of
  package zero the prefix \<open>zero_\<close>.
\<close>

record Timestamp =
  Time :: time
  Valid :: bool

definition decoded_time :: "int \<Rightarrow> time" where
  \<comment> \<open>\<^verbatim>\<open>time.UnixMilli(0).UTC().Add(time.Duration(ms * int64(time.Millisecond)))\<close>, the
      expression all four decoders store\<close>
  "decoded_time ms = Time_Add (Time_UTC (time_UnixMilli 0)) (wrap64 (ms * Millisecond))"

subsubsection \<open>Package null\<close>

definition null_NewTimestamp :: "time \<Rightarrow> bool \<Rightarrow> Timestamp" where
  "null_NewTimestamp t valid = \<lparr>Time = t, Valid = valid\<rparr>"

definition null_TimestampFrom :: "time \<Rightarrow> Timestamp" where
  "null_TimestampFrom t = null_NewTimestamp t True"

definition null_TimestampFromPtr :: "time option \<Rightarrow> Timestamp" where
  "null_TimestampFromPtr p =
     (case p of None \<Rightarrow> null_NewTimestamp time_zero False | Some t \<Rightarrow> null_NewTimestamp t True)"

definition null_ValueOrZero :: "Timestamp \<Rightarrow> time" where
  "null_ValueOrZero t = (if \<not> Valid t then time_zero else Time t)"

definition null_MarshalJSON :: "Timestamp \<Rightarrow> error + string" where
  "null_MarshalJSON t =
     (if \<not> Valid t then Inr ''null''
      else json_Marshal_int64 (Time_UnixNano (Time t) sdiv Millisecond))"

definition null_UnmarshalJSON :: "Timestamp \<Rightarrow> string \<Rightarrow> Timestamp \<times> error option" where
  "null_UnmarshalJSON t data =
     (if data = nullBytes then (t\<lparr>Valid := False\<rparr>, None)
      else case null_Int64_UnmarshalJSON \<lparr>Int64 = 0, IntValid = False\<rparr> data of
             (value, Some err) \<Rightarrow> (t, Some err)
           | (value, None) \<Rightarrow> (t\<lparr>Time := decoded_time (Int64 value), Valid := True\<rparr>, None))"

definition null_MarshalText :: "Timestamp \<Rightarrow> error + string" where
  "null_MarshalText t =
     (if \<not> Valid t then Inr []
      else null_Int64_MarshalText (null_Int64From (Time_UnixMilli (Time t))))"

definition null_UnmarshalText :: "Timestamp \<Rightarrow> string \<Rightarrow> Timestamp \<times> error option" where
  "null_UnmarshalText t text =
     (case null_Int64_UnmarshalText (null_Int64From 0) text of
        (n, Some err) \<Rightarrow> (t, Some (Wrapped ''null: couldn't unmarshal text'' err))
      | (n, None) \<Rightarrow>
          if \<not> IntValid n then (t, None)
          else (t\<lparr>Time := decoded_time (Int64 n), Valid := True\<rparr>, None))"

definition null_SetValid :: "Timestamp \<Rightarrow> time \<Rightarrow> Timestamp" where
  "null_SetValid t v = t\<lparr>Time := v, Valid := True\<rparr>"

definition null_Ptr :: "Timestamp \<Rightarrow> time option" where
  "null_Ptr t = (if \<not> Valid t then None else Some (Time t))"

definition null_IsZero :: "Timestamp \<Rightarrow> bool" where
  "null_IsZero t = (\<not> Valid t)"

definition null_Equal :: "Timestamp \<Rightarrow> Timestamp \<Rightarrow> bool" where
  "null_Equal t other = (Valid t = Valid other \<and> (\<not> Valid t \<or> Time_Equal (Time t) (Time other)))"

definition null_ExactEqual :: "Timestamp \<Rightarrow> Timestamp \<Rightarrow> bool" where
  "null_ExactEqual t other = (Valid t = Valid other \<and> (\<not> Valid t \<or> Time t = Time other))"

subsubsection \<open>Package zero\<close>

definition zero_NewTimestamp :: "time \<Rightarrow> bool \<Rightarrow> Timestamp" where
  "zero_NewTimestamp t valid = \<lparr>Time = t, Valid = valid\<rparr>"

definition zero_TimestampFrom :: "time \<Rightarrow> Timestamp" where
  "zero_TimestampFrom t = zero_NewTimestamp t (\<not> Time_IsZero t)"

definition zero_TimestampFromPtr :: "time option \<Rightarrow> Timestamp" where
  "zero_TimestampFromPtr p =
     (case p of None \<Rightarrow> zero_NewTimestamp time_zero False | Some t \<Rightarrow> zero_TimestampFrom t)"

definition zero_ValueOrZero :: "Timestamp \<Rightarrow> time" where
  "zero_ValueOrZero t = (if \<not> Valid t then time_zero else Time t)"

definition zero_MarshalJSON :: "Timestamp \<Rightarrow> error + string" where
  "zero_MarshalJSON t =
     (if \<not> Valid t then Inr ''0''
      else json_Marshal_int64 (Time_UnixNano (Time t) sdiv Millisecond))"

definition zero_UnmarshalJSON :: "Timestamp \<Rightarrow> string \<Rightarrow> Timestamp \<times> error option" where
  "zero_UnmarshalJSON t data =
     (if data = ''null'' \<or> data = [CHR 0x22, CHR 0x22] then (t\<lparr>Valid := False\<rparr>, None)
      else case zero_Int64_UnmarshalJSON \<lparr>Int64 = 0, IntValid = False\<rparr> data of
             (value, Some err) \<Rightarrow> (t, Some err)
           | (value, None) \<Rightarrow>
               (let t1 = t\<lparr>Time := decoded_time (Int64 value)\<rparr>
                in (t1\<lparr>Valid := \<not> Time_IsZero (Time t1)\<rparr>, None)))"

definition zero_MarshalText :: "Timestamp \<Rightarrow> error + string" where
  "zero_MarshalText t =
     (if \<not> Valid t then Inr ''0''
      else zero_Int64_MarshalText (zero_Int64From (Time_UnixMilli (Time t))))"

definition zero_UnmarshalText :: "Timestamp \<Rightarrow> string \<Rightarrow> Timestamp \<times> error option" where
  "zero_UnmarshalText t text =
     (case zero_Int64_UnmarshalText (zero_Int64From 0) text of
        (n, Some err) \<Rightarrow> (t, Some (Wrapped ''null: couldn't unmarshal text'' err))
      | (n, None) \<Rightarrow>
          if \<not> IntValid n then (t, None)
          else (t\<lparr>Time := decoded_time (Int64 n), Valid := True\<rparr>, None))"

definition zero_SetValid :: "Timestamp \<Rightarrow> time \<Rightarrow> Timestamp" where
  "zero_SetValid t v = t\<lparr>Time := v, Valid := True\<rparr>"

definition zero_Ptr :: "Timestamp \<Rightarrow> time option" where
  "zero_Ptr t = (if \<not> Valid t then None else Some (Time t))"

definition zero_IsZero :: "Timestamp \<Rightarrow> bool" where
  "zero_IsZero t = (\<not> Valid t \<or> Time_IsZero (Time t))"

definition zero_Equal :: "Timestamp \<Rightarrow> Timestamp \<Rightarrow> bool" where
  "zero_Equal t other = Time_Equal (zero_ValueOrZero t) (zero_ValueOrZero other)"

definition zero_ExactEqual :: "Timestamp \<Rightarrow> Timestamp \<Rightarrow> bool" where
  "zero_ExactEqual t other = (zero_ValueOrZero t = zero_ValueOrZero other)"

subsection \<open>The fixtures of the tests\<close>

definition timestampString :: string where
  "timestampString = ''1356124881000''"

definition timeValue1 :: time where
  \<comment> \<open>the instant \<open>timestampString\<close> denotes, 2012-12-21 21:21:21 UTC\<close>
  "timeValue1 = \<lparr>sec = 63491721681, nsec = 0, mono = None, loc = UTC\<rparr>"

definition timeValue2 :: time where
  \<comment> \<open>the same instant, read on the clock of another time zone\<close>
  "timeValue2 = \<lparr>sec = 63491721681, nsec = 0, mono = None, loc = Zone 1\<rparr>"

definition ms_representable :: "time \<Rightarrow> bool" where
  \<comment> \<open>the instants the millisecond encoding carries without loss: a whole number of
      milliseconds whose Unix time in nanoseconds fits an int64 (years 1678 to 2262)\<close>
  "ms_representable v =
     (0 \<le> nsec v \<and> nsec v < 1000000000 \<and> nsec v mod 1000000 = 0
      \<and> in_int64 ((sec v - unixToInternal) * 1000000000 + nsec v))"

section \<open>Supporting lemmas\<close>

subsection \<open>Evaluations\<close>

lemma epoch_UTC: "Time_UTC (time_UnixMilli 0) = \<lparr>sec = 62135596800, nsec = 0, mono = None, loc = UTC\<rparr>"
  by code_simp

lemma decoded_time_0: "decoded_time 0 = \<lparr>sec = 62135596800, nsec = 0, mono = None, loc = UTC\<rparr>"
  by code_simp

lemma decoded_time_location: "loc (decoded_time ms) = UTC \<and> mono (decoded_time ms) = None"
  by (simp add: decoded_time_def epoch_UTC Time_Add_def addSec_def stripMono_def Let_def split: prod.splits)

lemma ParseInt_hello: "ParseInt ''hello world'' = Inl ParseError"
  by (simp add: ParseInt_def is_digit_def Let_def)

lemma json_int64_hello: "json_int64 ''hello world'' = Inl JSONError"
  by (simp add: json_int64_def json_int_literal_def json_quoted_def is_digit_def Let_def)

lemma json_int64_true: "json_int64 ''true'' = Inl JSONError"
  by (simp add: json_int64_def json_int_literal_def json_quoted_def is_digit_def Let_def)

lemma json_int64_0: "json_int64 ''0'' = Inr 0"
  by (simp add: json_int64_def json_int_literal_def ParseInt_def is_digit_def digits_val_def
      digit_val_def in_int64_def Let_def)

subsection \<open>A failed decode writes nothing\<close>

lemma null_UnmarshalJSON_error: "snd (null_UnmarshalJSON t data) \<noteq> None \<Longrightarrow> fst (null_UnmarshalJSON t data) = t"
  by (cases "null_Int64_UnmarshalJSON \<lparr>Int64 = 0, IntValid = False\<rparr> data"; cases "snd (null_Int64_UnmarshalJSON \<lparr>Int64 = 0, IntValid = False\<rparr> data)")
    (simp_all add: null_UnmarshalJSON_def split: if_splits)

lemma null_UnmarshalText_error: "snd (null_UnmarshalText t data) \<noteq> None \<Longrightarrow> fst (null_UnmarshalText t data) = t"
  by (cases "null_Int64_UnmarshalText (null_Int64From 0) data"; cases "snd (null_Int64_UnmarshalText (null_Int64From 0) data)")
    (simp_all add: null_UnmarshalText_def split: if_splits)

lemma zero_UnmarshalJSON_error: "snd (zero_UnmarshalJSON t data) \<noteq> None \<Longrightarrow> fst (zero_UnmarshalJSON t data) = t"
  by (cases "zero_Int64_UnmarshalJSON \<lparr>Int64 = 0, IntValid = False\<rparr> data"; cases "snd (zero_Int64_UnmarshalJSON \<lparr>Int64 = 0, IntValid = False\<rparr> data)")
    (simp_all add: zero_UnmarshalJSON_def Let_def split: if_splits)

lemma zero_UnmarshalText_error: "snd (zero_UnmarshalText t data) \<noteq> None \<Longrightarrow> fst (zero_UnmarshalText t data) = t"
  by (cases "zero_Int64_UnmarshalText (zero_Int64From 0) data"; cases "snd (zero_Int64_UnmarshalText (zero_Int64From 0) data)")
    (simp_all add: zero_UnmarshalText_def split: if_splits)

subsection \<open>Writing and reading a decimal number\<close>

lemma of_char_digit_char:
  assumes "0 \<le> d" "d < 10"
  shows "(of_char (digit_char d) :: int) = 48 + d"
proof -
  have "(48 + d) mod 256 = 48 + d"
    using assms by (intro mod_pos_pos_trivial) linarith+
  then show ?thesis
    by (simp only: digit_char_def of_char_of)
qed

lemma digit_char_props:
  assumes "0 \<le> d" "d < 10"
  shows "is_digit (digit_char d)" and "digit_val (digit_char d) = d"
    and "(digit_char d = CHR ''0'') = (d = 0)"
proof -
  note c = of_char_digit_char [OF assms]
  show "is_digit (digit_char d)"
    unfolding is_digit_def c using assms by linarith
  show "digit_val (digit_char d) = d"
    unfolding digit_val_def c by linarith
  have z: "(of_char (CHR ''0'') :: int) = 48"
    by simp
  have "(digit_char d = CHR ''0'') = ((of_char (digit_char d) :: int) = of_char (CHR ''0''))"
    by (simp only: of_char_eq_iff)
  also have "\<dots> = (d = 0)"
    unfolding c z by linarith
  finally show "(digit_char d = CHR ''0'') = (d = 0)" .
qed
lemma digits_nonempty: "digits n \<noteq> []"
  by (subst digits.simps) simp

lemma digits_all_digit: "0 \<le> n \<Longrightarrow> list_all is_digit (digits n)"
proof (induction n rule: digits.induct)
  case (1 n)
  show ?case
  proof (cases "n < 10")
    case True
    with "1.prems" show ?thesis
      by (subst digits.simps) (simp add: digit_char_props)
  next
    case False
    with "1.prems" have "list_all is_digit (digits (n div 10))"
      by (intro "1.IH") simp_all
    moreover have "is_digit (digit_char (n mod 10))"
      by (rule digit_char_props) simp_all
    ultimately show ?thesis
      using False by (subst digits.simps) simp
  qed
qed

lemma digits_val_snoc: "digits_val (cs @ [c]) = digits_val cs * 10 + digit_val c"
  by (simp add: digits_val_def)

lemma digits_val_digits: "0 \<le> n \<Longrightarrow> digits_val (digits n) = n"
proof (induction n rule: digits.induct)
  case (1 n)
  show ?case
  proof (cases "n < 10")
    case True
    with "1.prems" show ?thesis
      by (subst digits.simps) (simp add: digits_val_def digit_char_props)
  next
    case False
    with "1.prems" have "digits_val (digits (n div 10)) = n div 10"
      by (intro "1.IH") simp_all
    moreover have "digit_val (digit_char (n mod 10)) = n mod 10"
      by (rule digit_char_props) simp_all
    ultimately show ?thesis
      using False by (subst digits.simps) (simp add: digits_val_snoc)
  qed
qed

lemma digits_no_leading_zero: "0 < n \<Longrightarrow> hd (digits n) \<noteq> CHR ''0''"
proof (induction n rule: digits.induct)
  case (1 n)
  show ?case
  proof (cases "n < 10")
    case True
    with "1.prems" show ?thesis
      by (subst digits.simps) (simp add: digit_char_props)
  next
    case False
    with "1.prems" have "hd (digits (n div 10)) \<noteq> CHR ''0''"
      by (intro "1.IH") simp_all
    then show ?thesis
      using False by (subst digits.simps) (simp add: digits_nonempty)
  qed
qed

lemma digits_0: "digits 0 = ''0''"
  by (subst digits.simps) (simp add: digit_char_def char_of_eq_iff)

lemma digits_hd_digit: "0 \<le> n \<Longrightarrow> is_digit (hd (digits n))"
  using digits_all_digit [of n] digits_nonempty [of n]
  by (cases "digits n") simp_all

lemma not_digit_signs: "\<not> is_digit (CHR ''-'')" "\<not> is_digit (CHR ''+'')" "\<not> is_digit (CHR ''n'')"
  by (simp_all add: is_digit_def)

lemma ParseInt_digits:
  assumes "0 \<le> n"
  shows "ParseInt (digits n) = (if in_int64 n then Inr n else Inl OverflowError)"
proof -
  have "hd (digits n) \<noteq> CHR ''-''" "hd (digits n) \<noteq> CHR ''+''"
    using digits_hd_digit [OF assms] not_digit_signs by metis+
  then show ?thesis
    using assms by (simp add: ParseInt_def digits_nonempty digits_all_digit digits_val_digits)
qed

lemma ParseInt_FormatInt: "in_int64 n \<Longrightarrow> ParseInt (FormatInt n) = Inr n"
proof (cases "n < 0")
  case True
  assume "in_int64 n"
  with True show ?thesis
    by (simp add: FormatInt_def ParseInt_def digits_nonempty digits_all_digit digits_val_digits)
next
  case False
  assume "in_int64 n"
  with False show ?thesis
    by (simp add: FormatInt_def ParseInt_digits)
qed

lemma json_int_literal_FormatInt: "json_int_literal (FormatInt n)"
proof (cases "n < 0")
  case True
  then have "hd (digits (- n)) \<noteq> CHR ''0''"
    by (intro digits_no_leading_zero) simp
  with True show ?thesis
    by (simp add: FormatInt_def json_int_literal_def digits_nonempty digits_all_digit)
next
  case False
  have sign: "hd (digits n) \<noteq> CHR ''-''"
    using digits_hd_digit [of n] False not_digit_signs by force
  have lead: "hd (digits n) = CHR ''0'' \<Longrightarrow> length (digits n) = 1"
    using digits_no_leading_zero [of n] digits_0 False by (cases "n = 0") auto
  from False sign lead show ?thesis
    by (simp add: FormatInt_def json_int_literal_def digits_nonempty digits_all_digit)
qed

lemma FormatInt_not_null: "FormatInt n \<noteq> ''null''"
proof (cases "n < 0")
  case True
  then show ?thesis by (simp add: FormatInt_def)
next
  case False
  then have "is_digit (hd (digits n))"
    by (intro digits_hd_digit) simp
  then have "hd (digits n) \<noteq> CHR ''n''"
    using not_digit_signs by metis
  then have "digits n \<noteq> ''null''"
    by auto
  with False show ?thesis by (simp add: FormatInt_def)
qed

lemma json_int64_FormatInt: "in_int64 n \<Longrightarrow> json_int64 (FormatInt n) = Inr n"
  by (simp add: json_int64_def json_int_literal_FormatInt ParseInt_FormatInt)

subsection \<open>The arithmetic of the millisecond count\<close>

lemma wrap64_id: "in_int64 x \<Longrightarrow> wrap64 x = x"
proof -
  assume "in_int64 x"
  then have "0 \<le> x + 2 ^ 63" "x + 2 ^ 63 < 2 ^ 64"
    by (simp_all add: in_int64_def)
  then have "(x + 2 ^ 63) mod 2 ^ 64 = x + 2 ^ 63"
    by (rule mod_pos_pos_trivial)
  then show ?thesis
    by (simp add: wrap64_def)
qed

lemma trunc_to_floor:
  fixes a b :: int
  assumes "0 < b"
  shows "a smod b < b"
    and "a smod b < 0 \<Longrightarrow> a sdiv b - 1 = a div b \<and> a smod b + b = a mod b"
    and "\<not> a smod b < 0 \<Longrightarrow> a sdiv b = a div b \<and> a smod b = a mod b"
proof -
  define c where "c = (sgn a \<noteq> sgn b \<and> \<not> b dvd a)"
  have r: "0 \<le> a mod b" "a mod b < b"
    using assms by simp_all
  have m: "a smod b = a mod b - b * of_bool c"
    by (simp add: c_def signed_modulo_int_eq_modulo_int)
  have d: "a sdiv b = a div b + of_bool c"
    using assms by (simp add: c_def signed_divide_int_eq_divide_int)
  have yes: "a smod b = a mod b - b \<and> a sdiv b = a div b + 1" if c
    using m d that by simp
  have no: "a smod b = a mod b \<and> a sdiv b = a div b" if "\<not> c"
    using m d that by simp
  show "a smod b < b"
    using yes no r assms by (cases c) linarith+
  show "a sdiv b - 1 = a div b \<and> a smod b + b = a mod b" if "a smod b < 0"
    using yes no r that by (cases c) linarith+
  show "a sdiv b = a div b \<and> a smod b = a mod b" if "\<not> a smod b < 0"
    using yes no r that by (cases c) linarith+
qed

lemma sdiv_exact:
  fixes k b :: int
  assumes "b \<noteq> 0"
  shows "(k * b) sdiv b = k"
  using assms by (simp add: signed_divide_int_eq_divide_int)

lemma int64_div_bounds:
  assumes "in_int64 d"
  shows "- 9223372037 \<le> d div 1000000000" and "d div 1000000000 \<le> 9223372036"
proof -
  have lo: "- 9223372036854775808 \<le> d" and hi: "d \<le> 9223372036854775807"
    using assms by (simp_all add: in_int64_def)
  have "(- 9223372036854775808) div 1000000000 \<le> d div 1000000000"
    using lo by (rule zdiv_mono1) simp
  then show "- 9223372037 \<le> d div 1000000000"
    by simp
  have "d div 1000000000 \<le> 9223372036854775807 div 1000000000"
    using hi by (rule zdiv_mono1) simp
  then show "d div 1000000000 \<le> 9223372036"
    by simp
qed

lemma addSec_epoch:
  assumes "- 9223372037 \<le> q" "q \<le> 9223372036"
  shows "addSec \<lparr>sec = 62135596800, nsec = n, mono = None, loc = UTC\<rparr> q
           = \<lparr>sec = 62135596800 + q, nsec = n, mono = None, loc = UTC\<rparr>"
proof -
  have "in_int64 (62135596800 + q)"
    using assms by (simp add: in_int64_def)
  then have "wrap64 (62135596800 + q) = 62135596800 + q"
    by (rule wrap64_id)
  then show ?thesis
    by (simp add: addSec_def stripMono_def Let_def)
qed

lemma Time_Add_epoch:
  assumes "in_int64 d"
  shows "Time_Add \<lparr>sec = 62135596800, nsec = 0, mono = None, loc = UTC\<rparr> d
           = \<lparr>sec = 62135596800 + d div 1000000000, nsec = d mod 1000000000, mono = None, loc = UTC\<rparr>"
proof -
  note b = int64_div_bounds [OF assms]
  have lt: "\<not> 1000000000 \<le> d smod 1000000000"
    using trunc_to_floor(1) [of 1000000000 d] by simp
  show ?thesis
  proof (cases "d smod 1000000000 < 0")
    case True
    then have "d sdiv 1000000000 - 1 = d div 1000000000 \<and> d smod 1000000000 + 1000000000 = d mod 1000000000"
      by (intro trunc_to_floor(2)) simp_all
    with True lt show ?thesis
      by (simp add: Time_Add_def Let_def addSec_epoch b)
  next
    case False
    then have "d sdiv 1000000000 = d div 1000000000 \<and> d smod 1000000000 = d mod 1000000000"
      by (intro trunc_to_floor(3)) simp_all
    with False lt show ?thesis
      by (simp add: Time_Add_def Let_def addSec_epoch b)
  qed
qed

lemma decoded_time_in_range:
  assumes "in_int64 (ms * 1000000)"
  shows "decoded_time ms
           = \<lparr>sec = 62135596800 + (ms * 1000000) div 1000000000,
              nsec = (ms * 1000000) mod 1000000000, mono = None, loc = UTC\<rparr>"
  using assms by (simp add: decoded_time_def epoch_UTC Millisecond_def wrap64_id Time_Add_epoch)

lemma UnixNano_in_range:
  assumes "ms_representable v"
  shows "Time_UnixNano v = (sec v - 62135596800) * 1000000000 + nsec v"
proof -
  have n: "0 \<le> nsec v" "nsec v < 1000000000"
    and r: "in_int64 ((sec v - 62135596800) * 1000000000 + nsec v)"
    using assms by (simp_all add: ms_representable_def unixToInternal_def)
  have "in_int64 (sec v - 62135596800)"
    using n r by (simp add: in_int64_def)
  then have "unixSec v = sec v - 62135596800"
    by (simp add: unixSec_def internalToUnix_def unixToInternal_def wrap64_id)
  then show ?thesis
    using r by (simp add: Time_UnixNano_def wrap64_id)
qed

lemma millis_of_representable:
  assumes "ms_representable v"
  shows "Time_UnixNano v sdiv Millisecond = (sec v - 62135596800) * 1000 + nsec v div 1000000"
    and "((sec v - 62135596800) * 1000 + nsec v div 1000000) * 1000000 = Time_UnixNano v"
proof -
  have "nsec v mod 1000000 = 0"
    using assms by (simp add: ms_representable_def)
  then have e: "nsec v = nsec v div 1000000 * 1000000"
    by (simp add: mod_eq_0_iff_dvd)
  have "Time_UnixNano v = ((sec v - 62135596800) * 1000 + nsec v div 1000000) * 1000000"
    using e by (simp add: UnixNano_in_range [OF assms] algebra_simps)
  then show "((sec v - 62135596800) * 1000 + nsec v div 1000000) * 1000000 = Time_UnixNano v"
    by simp
  then show "Time_UnixNano v sdiv Millisecond = (sec v - 62135596800) * 1000 + nsec v div 1000000"
    using sdiv_exact [of 1000000 "(sec v - 62135596800) * 1000 + nsec v div 1000000"]
    by (simp add: Millisecond_def)
qed

lemma decoded_time_of_millis:
  assumes "ms_representable v"
  shows "decoded_time ((sec v - 62135596800) * 1000 + nsec v div 1000000)
           = \<lparr>sec = sec v, nsec = nsec v, mono = None, loc = UTC\<rparr>"
proof -
  let ?ms = "(sec v - 62135596800) * 1000 + nsec v div 1000000"
  let ?N = "(sec v - 62135596800) * 1000000000 + nsec v"
  have n: "0 \<le> nsec v" "nsec v < 1000000000" and r: "in_int64 ?N"
    using assms by (simp_all add: ms_representable_def unixToInternal_def)
  have N: "?ms * 1000000 = ?N"
    using millis_of_representable(2) [OF assms] UnixNano_in_range [OF assms] by simp
  have dk: "(k * 1000000000 + nsec v) div 1000000000 = k" for k
    using n by (simp add: div_pos_pos_trivial)
  have mk: "(k * 1000000000 + nsec v) mod 1000000000 = nsec v" for k
    using n by (simp add: mod_pos_pos_trivial)
  have d: "?N div 1000000000 = sec v - 62135596800"
    by (rule dk)
  have m: "?N mod 1000000000 = nsec v"
    by (rule mk)
  have "decoded_time ?ms
          = \<lparr>sec = 62135596800 + ?N div 1000000000, nsec = ?N mod 1000000000, mono = None, loc = UTC\<rparr>"
    using decoded_time_in_range [of ?ms] r by (simp only: N)
  then show ?thesis
    by (simp only: d m) simp
qed

subsection \<open>The structured decoder on an integer literal\<close>

lemma json_int64_timestampString: "json_int64 ''1356124881000'' = Inr 1356124881000"
  by (simp add: json_int64_def json_int_literal_def ParseInt_def is_digit_def digits_val_def
      digit_val_def in_int64_def Let_def)

lemma decoded_time_timestampString: "decoded_time 1356124881000 = timeValue1"
  by code_simp

lemma null_MarshalJSON_timeValue1: "null_MarshalJSON (null_TimestampFrom timeValue1) = Inr ''1356124881000''"
  by code_simp

lemma null_MarshalJSON_timeValue2: "null_MarshalJSON (null_TimestampFrom timeValue2) = Inr ''1356124881000''"
  by code_simp

lemma null_UnmarshalJSON_value:
  "data \<noteq> ''null'' \<Longrightarrow> json_int64 data = Inr n \<Longrightarrow>
   null_UnmarshalJSON r data = (null_TimestampFrom (decoded_time n), None)"
  by (simp add: null_UnmarshalJSON_def null_Int64_UnmarshalJSON_def nullBytes_def
      null_TimestampFrom_def null_NewTimestamp_def)

section \<open>Properties\<close>

subsection \<open>Structured decode of the null token, package null\<close>

text \<open>
  Claim C3, as amended. For every null-family Timestamp receiver, also one that holds a
  valid, non-zero time, \<^verbatim>\<open>UnmarshalJSON\<close> of the literal null token returns no
  error and sets \<open>Valid\<close> to false; the \<open>Time\<close> field is left as it was, so that
  \<^verbatim>\<open>ValueOrZero\<close> reads the zero time afterwards.
\<close>

theorem null_UnmarshalJSON_null_token:
  "null_UnmarshalJSON t ''null'' = (t\<lparr>Valid := False\<rparr>, None)
   \<and> null_ValueOrZero (fst (null_UnmarshalJSON t ''null'')) = time_zero"
  by (simp add: null_UnmarshalJSON_def nullBytes_def null_ValueOrZero_def)

theorem null_UnmarshalJSON_null_token_witness:
  "null_UnmarshalJSON (null_TimestampFrom timeValue1) ''null''
     = ((null_TimestampFrom timeValue1)\<lparr>Valid := False\<rparr>, None)
   \<and> null_ValueOrZero (fst (null_UnmarshalJSON (null_TimestampFrom timeValue1) ''null'')) = time_zero"
  by (rule null_UnmarshalJSON_null_token)

text \<open>
  The claim as first stated asks for the stored value to be the zero time. A receiver
  that holds \<open>timeValue1\<close> still holds it after decoding the null token.
\<close>

theorem null_UnmarshalJSON_null_token_counterexample:
  "fst (null_UnmarshalJSON (null_TimestampFrom timeValue1) ''null'') = null_NewTimestamp timeValue1 False
   \<and> snd (null_UnmarshalJSON (null_TimestampFrom timeValue1) ''null'') = None
   \<and> Time (fst (null_UnmarshalJSON (null_TimestampFrom timeValue1) ''null'')) \<noteq> time_zero"
  by (simp add: null_UnmarshalJSON_def nullBytes_def null_TimestampFrom_def null_NewTimestamp_def
      timeValue1_def time_zero_def)

subsection \<open>Structured encode of an invalid wrapper, package zero\<close>

text \<open>
  Claim C5. For the zero-family Timestamp, \<^verbatim>\<open>MarshalJSON\<close> of any invalid wrapper
  yields the bytes \<open>0\<close>; \<^verbatim>\<open>TimestampFrom\<close> of a zero time (in any location) is
  such a wrapper, in particular \<^verbatim>\<open>TimestampFrom(time.Time{})\<close>, whose encoding is
  \<open>0\<close> and not the null token.
\<close>

theorem zero_MarshalJSON_invalid:
  "(\<not> Valid t \<longrightarrow> zero_MarshalJSON t = Inr ''0'')
   \<and> (Time_IsZero v \<longrightarrow> zero_MarshalJSON (zero_TimestampFrom v) = Inr ''0'')
   \<and> zero_MarshalJSON (zero_TimestampFrom time_zero) = Inr ''0''
   \<and> zero_MarshalJSON (zero_TimestampFrom time_zero) \<noteq> Inr ''null''"
  by (simp add: zero_MarshalJSON_def zero_TimestampFrom_def zero_NewTimestamp_def
      Time_IsZero_def time_zero_def)

theorem zero_MarshalJSON_invalid_witness:
  "\<not> Valid (zero_NewTimestamp timeValue1 False)
   \<and> zero_MarshalJSON (zero_NewTimestamp timeValue1 False) = Inr ''0''
   \<and> Time_IsZero (time_zero\<lparr>loc := Local\<rparr>)
   \<and> zero_MarshalJSON (zero_TimestampFrom (time_zero\<lparr>loc := Local\<rparr>)) = Inr ''0''"
  using zero_MarshalJSON_invalid [of "zero_NewTimestamp timeValue1 False" "time_zero\<lparr>loc := Local\<rparr>"]
  by (simp add: zero_NewTimestamp_def Time_IsZero_def time_zero_def)

subsection \<open>Equality, package zero\<close>

text \<open>
  Claim C7. For every pair of zero-family Timestamps \<open>a\<close> and \<open>b\<close>, \<^verbatim>\<open>Equal\<close> is
  true exactly when the two \<^verbatim>\<open>ValueOrZero()\<close> results, the stored time of a valid
  wrapper and the zero time of an invalid one, are the same instant for
  \<^verbatim>\<open>time.Time.Equal\<close>: the same second and nanosecond, whatever the location,
  unless both carry a monotonic reading, which is then what is compared. In particular
  a wrapper that holds any time \<open>v\<close> with \<open>Valid\<close> false equals the wrapper that
  holds the zero time with \<open>Valid\<close> true.
\<close>

theorem zero_Equal_ValueOrZero:
  "(zero_Equal a b \<longleftrightarrow>
      Time_Equal (if Valid a then Time a else time_zero) (if Valid b then Time b else time_zero))
   \<and> (zero_Equal a b \<longleftrightarrow> Time_Equal (zero_ValueOrZero a) (zero_ValueOrZero b))
   \<and> (mono (zero_ValueOrZero a) = None \<or> mono (zero_ValueOrZero b) = None \<longrightarrow>
        (zero_Equal a b \<longleftrightarrow>
           sec (zero_ValueOrZero a) = sec (zero_ValueOrZero b)
           \<and> nsec (zero_ValueOrZero a) = nsec (zero_ValueOrZero b)))
   \<and> zero_Equal (zero_NewTimestamp v False) (zero_NewTimestamp time_zero True)"
proof -
  have 1: "zero_Equal a b \<longleftrightarrow> Time_Equal (zero_ValueOrZero a) (zero_ValueOrZero b)"
    by (simp add: zero_Equal_def)
  have 2: "zero_ValueOrZero x = (if Valid x then Time x else time_zero)" for x
    by (simp add: zero_ValueOrZero_def)
  have 3: "Time_Equal t u \<longleftrightarrow> sec t = sec u \<and> nsec t = nsec u"
    if "mono t = None \<or> mono u = None" for t u
    using that by (auto simp add: Time_Equal_def)
  have 4: "zero_Equal (zero_NewTimestamp v False) (zero_NewTimestamp time_zero True)"
    by (simp add: zero_Equal_def zero_ValueOrZero_def zero_NewTimestamp_def Time_Equal_def)
  show ?thesis
    using 1 3 [of "zero_ValueOrZero a" "zero_ValueOrZero b"] 4 unfolding 2 by blast
qed

theorem zero_Equal_ValueOrZero_witness:
  "zero_Equal (zero_NewTimestamp timeValue1 False) (zero_NewTimestamp time_zero True)
   \<and> \<not> Time_IsZero timeValue1
   \<and> mono (zero_ValueOrZero (zero_NewTimestamp timeValue1 True)) = None
   \<and> sec (zero_ValueOrZero (zero_NewTimestamp timeValue1 True)) = sec (zero_ValueOrZero (zero_NewTimestamp timeValue2 True))
   \<and> nsec (zero_ValueOrZero (zero_NewTimestamp timeValue1 True)) = nsec (zero_ValueOrZero (zero_NewTimestamp timeValue2 True))
   \<and> zero_Equal (zero_NewTimestamp timeValue1 True) (zero_NewTimestamp timeValue2 True)
   \<and> \<not> zero_Equal (zero_NewTimestamp timeValue1 True) (zero_NewTimestamp timeValue2 False)"
proof -
  have m: "mono (zero_ValueOrZero (zero_NewTimestamp timeValue1 True)) = None"
    by (simp add: zero_ValueOrZero_def zero_NewTimestamp_def timeValue1_def)
  have s: "sec (zero_ValueOrZero (zero_NewTimestamp timeValue1 True)) = sec (zero_ValueOrZero (zero_NewTimestamp timeValue2 True))"
    "nsec (zero_ValueOrZero (zero_NewTimestamp timeValue1 True)) = nsec (zero_ValueOrZero (zero_NewTimestamp timeValue2 True))"
    by (simp_all add: zero_ValueOrZero_def zero_NewTimestamp_def timeValue1_def timeValue2_def)
  have n: "sec (zero_ValueOrZero (zero_NewTimestamp timeValue1 True)) \<noteq> sec (zero_ValueOrZero (zero_NewTimestamp timeValue2 False))"
    by (simp add: zero_ValueOrZero_def zero_NewTimestamp_def timeValue1_def time_zero_def)
  have z: "\<not> Time_IsZero timeValue1"
    by (simp add: Time_IsZero_def timeValue1_def)
  show ?thesis
    using m s n z
      zero_Equal_ValueOrZero [of "zero_NewTimestamp timeValue1 True" "zero_NewTimestamp timeValue2 True" timeValue1]
      zero_Equal_ValueOrZero [of "zero_NewTimestamp timeValue1 True" "zero_NewTimestamp timeValue2 False" timeValue1]
    by blast
qed

subsection \<open>Equal and ExactEqual, package null\<close>

text \<open>
  Claim C8. There are pairs of valid null-family Timestamps whose times are the same
  instant in different locations, for which \<^verbatim>\<open>Equal\<close> is true and
  \<^verbatim>\<open>ExactEqual\<close> is false: any time \<open>t\<close>, once read in UTC and once in another
  zone \<open>Zone k\<close>, gives such a pair. The pair \<open>timeValue1\<close>, \<open>timeValue2\<close> of the tests
  is the instance \<open>k = 1\<close>.
\<close>

theorem null_Equal_but_not_ExactEqual:
  "Valid (null_TimestampFrom (t\<lparr>loc := UTC\<rparr>)) \<and> Valid (null_TimestampFrom (t\<lparr>loc := Zone k\<rparr>))
   \<and> Time_Equal (t\<lparr>loc := UTC\<rparr>) (t\<lparr>loc := Zone k\<rparr>)
   \<and> Time_Location (t\<lparr>loc := UTC\<rparr>) \<noteq> Time_Location (t\<lparr>loc := Zone k\<rparr>)
   \<and> null_Equal (null_TimestampFrom (t\<lparr>loc := UTC\<rparr>)) (null_TimestampFrom (t\<lparr>loc := Zone k\<rparr>))
   \<and> \<not> null_ExactEqual (null_TimestampFrom (t\<lparr>loc := UTC\<rparr>)) (null_TimestampFrom (t\<lparr>loc := Zone k\<rparr>))"
  by (cases t)
    (simp add: null_Equal_def null_ExactEqual_def null_TimestampFrom_def null_NewTimestamp_def
      Time_Equal_def Time_Location_def)

theorem null_Equal_but_not_ExactEqual_witness:
  "Valid (null_TimestampFrom timeValue1) \<and> Valid (null_TimestampFrom timeValue2)
   \<and> Time_Equal timeValue1 timeValue2
   \<and> Time_Location timeValue1 \<noteq> Time_Location timeValue2
   \<and> null_Equal (null_TimestampFrom timeValue1) (null_TimestampFrom timeValue2)
   \<and> \<not> null_ExactEqual (null_TimestampFrom timeValue1) (null_TimestampFrom timeValue2)"
  using null_Equal_but_not_ExactEqual [of timeValue1 1]
  by (simp add: timeValue1_def timeValue2_def)

subsection \<open>Structured decode of the absent forms, package zero\<close>

text \<open>
  Claim C1, as amended. For every zero-family Timestamp receiver, \<^verbatim>\<open>UnmarshalJSON\<close>
  of the null token or of the quoted empty string returns no error and sets \<open>Valid\<close>
  to false; the \<open>Time\<close> field is left as it was, so that \<^verbatim>\<open>ValueOrZero\<close> reads
  the zero time afterwards. \<^verbatim>\<open>UnmarshalJSON\<close> of the literal \<open>0\<close> returns no
  error and leaves the receiver valid, holding the Unix epoch in UTC, which is not the
  zero time.
\<close>

theorem zero_UnmarshalJSON_absent_forms:
  "zero_UnmarshalJSON t ''null'' = (t\<lparr>Valid := False\<rparr>, None)
   \<and> zero_UnmarshalJSON t [CHR 0x22, CHR 0x22] = (t\<lparr>Valid := False\<rparr>, None)
   \<and> zero_ValueOrZero (fst (zero_UnmarshalJSON t ''null'')) = time_zero
   \<and> zero_ValueOrZero (fst (zero_UnmarshalJSON t [CHR 0x22, CHR 0x22])) = time_zero
   \<and> zero_UnmarshalJSON t ''0''
        = (\<lparr>Time = \<lparr>sec = 62135596800, nsec = 0, mono = None, loc = UTC\<rparr>, Valid = True\<rparr>, None)"
  by (simp add: zero_UnmarshalJSON_def zero_ValueOrZero_def zero_Int64_UnmarshalJSON_def
      nullBytes_def json_int64_0 decoded_time_0 Time_IsZero_def)

theorem zero_UnmarshalJSON_absent_forms_witness:
  "zero_UnmarshalJSON (zero_NewTimestamp timeValue1 True) ''null'' = (zero_NewTimestamp timeValue1 False, None)
   \<and> zero_UnmarshalJSON (zero_NewTimestamp timeValue1 True) [CHR 0x22, CHR 0x22]
        = (zero_NewTimestamp timeValue1 False, None)
   \<and> zero_UnmarshalJSON (zero_NewTimestamp timeValue1 True) ''0''
        = (zero_NewTimestamp \<lparr>sec = 62135596800, nsec = 0, mono = None, loc = UTC\<rparr> True, None)"
  using zero_UnmarshalJSON_absent_forms [of "zero_NewTimestamp timeValue1 True"]
  by (simp add: zero_NewTimestamp_def)

text \<open>
  The claim as first stated asks for \<open>Valid\<close> false and the zero time after each of the
  three inputs. A fresh receiver that decodes \<open>0\<close> is valid and holds a time that is
  not the zero time (the test of the package checks that it is valid); a receiver that
  holds \<open>timeValue1\<close> still holds it after decoding the null token.
\<close>

theorem zero_UnmarshalJSON_zero_literal_counterexample:
  "snd (zero_UnmarshalJSON (zero_NewTimestamp time_zero False) ''0'') = None
   \<and> Valid (fst (zero_UnmarshalJSON (zero_NewTimestamp time_zero False) ''0''))
   \<and> Time (fst (zero_UnmarshalJSON (zero_NewTimestamp time_zero False) ''0'')) \<noteq> time_zero
   \<and> Time (fst (zero_UnmarshalJSON (zero_NewTimestamp timeValue1 True) ''null'')) \<noteq> time_zero"
  by (simp add: zero_UnmarshalJSON_def zero_Int64_UnmarshalJSON_def nullBytes_def json_int64_0
      decoded_time_0 Time_IsZero_def zero_NewTimestamp_def time_zero_def timeValue1_def)

subsection \<open>A decode that returns an error\<close>

text \<open>
  Claim C2, as amended. For both families and both decode operations, whenever the
  decode returns an error the receiver is exactly what it was before the call: nothing
  of it is written, so it is never partially populated, and it is in the invalid, zero
  state afterwards exactly when it was in that state before.
\<close>

theorem decode_error_keeps_receiver:
  "(snd (null_UnmarshalJSON t data) \<noteq> None \<longrightarrow> fst (null_UnmarshalJSON t data) = t)
   \<and> (snd (null_UnmarshalText t data) \<noteq> None \<longrightarrow> fst (null_UnmarshalText t data) = t)
   \<and> (snd (zero_UnmarshalJSON t data) \<noteq> None \<longrightarrow> fst (zero_UnmarshalJSON t data) = t)
   \<and> (snd (zero_UnmarshalText t data) \<noteq> None \<longrightarrow> fst (zero_UnmarshalText t data) = t)"
  using null_UnmarshalJSON_error [of t data] null_UnmarshalText_error [of t data]
    zero_UnmarshalJSON_error [of t data] zero_UnmarshalText_error [of t data]
  by blast

theorem decode_error_keeps_receiver_witness:
  "snd (null_UnmarshalJSON (null_NewTimestamp time_zero False) ''hello world'') \<noteq> None
   \<and> fst (null_UnmarshalJSON (null_NewTimestamp time_zero False) ''hello world'') = null_NewTimestamp time_zero False
   \<and> snd (null_UnmarshalText (null_NewTimestamp time_zero False) ''hello world'') \<noteq> None
   \<and> fst (null_UnmarshalText (null_NewTimestamp time_zero False) ''hello world'') = null_NewTimestamp time_zero False
   \<and> snd (zero_UnmarshalJSON (null_NewTimestamp time_zero False) ''hello world'') \<noteq> None
   \<and> fst (zero_UnmarshalJSON (null_NewTimestamp time_zero False) ''hello world'') = null_NewTimestamp time_zero False
   \<and> snd (zero_UnmarshalText (null_NewTimestamp time_zero False) ''hello world'') \<noteq> None
   \<and> fst (zero_UnmarshalText (null_NewTimestamp time_zero False) ''hello world'') = null_NewTimestamp time_zero False"
proof -
  have e1: "snd (null_UnmarshalJSON (null_NewTimestamp time_zero False) ''hello world'') \<noteq> None"
    by (simp add: null_UnmarshalJSON_def null_Int64_UnmarshalJSON_def nullBytes_def json_int64_hello)
  have e2: "snd (null_UnmarshalText (null_NewTimestamp time_zero False) ''hello world'') \<noteq> None"
    by (simp add: null_UnmarshalText_def null_Int64_UnmarshalText_def ParseInt_hello)
  have e3: "snd (zero_UnmarshalJSON (null_NewTimestamp time_zero False) ''hello world'') \<noteq> None"
    by (simp add: zero_UnmarshalJSON_def zero_Int64_UnmarshalJSON_def nullBytes_def json_int64_hello)
  have e4: "snd (zero_UnmarshalText (null_NewTimestamp time_zero False) ''hello world'') \<noteq> None"
    by (simp add: zero_UnmarshalText_def zero_Int64_UnmarshalText_def ParseInt_hello)
  show ?thesis
    using e1 e2 e3 e4
      decode_error_keeps_receiver [of "null_NewTimestamp time_zero False" "''hello world''"]
    by blast
qed

text \<open>
  The claim as first stated asks for the invalid, zero state after every failed decode,
  whatever the receiver held before. A receiver that holds \<open>timeValue1\<close> and is valid
  is still valid and still holds it after \<^verbatim>\<open>UnmarshalJSON\<close> of a JSON boolean
  has returned its error.
\<close>

theorem decode_error_counterexample:
  "null_UnmarshalJSON (null_TimestampFrom timeValue1) ''true'' = (null_TimestampFrom timeValue1, Some JSONError)
   \<and> Valid (null_TimestampFrom timeValue1)
   \<and> Time (null_TimestampFrom timeValue1) \<noteq> time_zero"
  by (simp add: null_UnmarshalJSON_def null_Int64_UnmarshalJSON_def nullBytes_def json_int64_true
      null_TimestampFrom_def null_NewTimestamp_def timeValue1_def time_zero_def)

subsection \<open>Text decode, package null\<close>

text \<open>
  Claim C6, as amended. For every null-family Timestamp receiver, \<^verbatim>\<open>UnmarshalText\<close>
  of the empty input and of the text \<open>null\<close> returns no error, and leaves \<open>Valid\<close>
  false when the receiver was invalid before the call; any other text that does not
  parse as a 64-bit decimal integer returns the wrapped parse error and leaves the
  receiver exactly as it was, so invalid when it was invalid before.
\<close>

theorem null_UnmarshalText_contract:
  "snd (null_UnmarshalText t []) = None \<and> snd (null_UnmarshalText t ''null'') = None
   \<and> (\<not> Valid t \<longrightarrow>
        \<not> Valid (fst (null_UnmarshalText t [])) \<and> \<not> Valid (fst (null_UnmarshalText t ''null'')))
   \<and> (text \<noteq> [] \<and> text \<noteq> ''null'' \<and> ParseInt text = Inl e \<longrightarrow>
        null_UnmarshalText t text = (t, Some (Wrapped ''null: couldn't unmarshal text'' e)))"
  by (simp add: null_UnmarshalText_def null_Int64_UnmarshalText_def)

theorem null_UnmarshalText_contract_witness:
  "\<not> Valid (null_NewTimestamp time_zero False)
   \<and> null_UnmarshalText (null_NewTimestamp time_zero False) [] = (null_NewTimestamp time_zero False, None)
   \<and> null_UnmarshalText (null_NewTimestamp time_zero False) ''null'' = (null_NewTimestamp time_zero False, None)
   \<and> ParseInt ''hello world'' = Inl ParseError
   \<and> null_UnmarshalText (null_NewTimestamp time_zero False) ''hello world''
        = (null_NewTimestamp time_zero False, Some (Wrapped ''null: couldn't unmarshal text'' ParseError))
   \<and> \<not> Valid (fst (null_UnmarshalText (null_NewTimestamp time_zero False) ''hello world''))"
proof -
  have v: "\<not> Valid (null_NewTimestamp time_zero False)"
    by (simp add: null_NewTimestamp_def)
  have a: "null_UnmarshalText (null_NewTimestamp time_zero False) [] = (null_NewTimestamp time_zero False, None)"
    by (simp add: null_UnmarshalText_def null_Int64_UnmarshalText_def null_Int64From_def)
  have b: "null_UnmarshalText (null_NewTimestamp time_zero False) ''null'' = (null_NewTimestamp time_zero False, None)"
    by (simp add: null_UnmarshalText_def null_Int64_UnmarshalText_def null_Int64From_def)
  have c: "''hello world'' \<noteq> [] \<and> ''hello world'' \<noteq> ''null'' \<and> ParseInt ''hello world'' = Inl ParseError"
    by (simp add: ParseInt_hello)
  show ?thesis
    using v a b c
      null_UnmarshalText_contract [of "null_NewTimestamp time_zero False" "''hello world''" ParseError]
    by simp
qed

text \<open>
  The claim as first stated asks for an invalid wrapper after an unparseable text,
  for every receiver. A receiver that holds \<open>timeValue1\<close> and is valid is still valid
  after \<^verbatim>\<open>UnmarshalText\<close> of \<open>hello world\<close> has returned its error.
\<close>

theorem null_UnmarshalText_counterexample:
  "null_UnmarshalText (null_TimestampFrom timeValue1) ''hello world''
     = (null_TimestampFrom timeValue1, Some (Wrapped ''null: couldn't unmarshal text'' ParseError))
   \<and> Valid (fst (null_UnmarshalText (null_TimestampFrom timeValue1) ''hello world''))"
  by (simp add: null_UnmarshalText_def null_Int64_UnmarshalText_def ParseInt_hello null_TimestampFrom_def
      null_NewTimestamp_def)

subsection \<open>The two encoders of package null on one wrapper\<close>

text \<open>
  Claim C9 says that \<^verbatim>\<open>MarshalJSON\<close> (\<^verbatim>\<open>UnixNano() / 1000000\<close>) and
  \<^verbatim>\<open>MarshalText\<close> (\<^verbatim>\<open>UnixMilli()\<close>) write the same decimal number for every
  valid wrapper. The code does not: for the valid wrapper that holds the instant one
  nanosecond before the Unix epoch, \<^verbatim>\<open>MarshalJSON\<close> writes \<open>0\<close> (the division
  truncates towards zero) and \<^verbatim>\<open>MarshalText\<close> writes \<open>-1\<close>; for the valid wrapper
  that holds the zero time, whose nanosecond count overflows an int64,
  \<^verbatim>\<open>MarshalJSON\<close> writes \<open>-6795364578871\<close> and \<^verbatim>\<open>MarshalText\<close> writes
  \<open>-62135596800000\<close>.
\<close>

theorem null_MarshalJSON_MarshalText_disagree:
  "null_MarshalJSON (null_TimestampFrom (Time_UTC (time_Unix (- 1) 999999999))) = Inr ''0''
   \<and> null_MarshalText (null_TimestampFrom (Time_UTC (time_Unix (- 1) 999999999))) = Inr ''-1''
   \<and> null_MarshalJSON (null_TimestampFrom time_zero) = Inr ''-6795364578871''
   \<and> null_MarshalText (null_TimestampFrom time_zero) = Inr ''-62135596800000''"
  by code_simp

subsection \<open>The location of a decoded time\<close>

text \<open>
  Claim C10 says that after every decode that returns no error and leaves the receiver
  valid, the stored time is in UTC, whatever the receiver held before. The code does
  not reach that on the early return of \<^verbatim>\<open>UnmarshalText\<close>: for a valid receiver
  that holds \<open>timeValue2\<close>, a time in another zone, \<^verbatim>\<open>UnmarshalText\<close> of the empty
  input (both packages; in package null also of the text \<open>null\<close>) returns no error and
  leaves the receiver as it was, valid and in that zone. Every time that a decoder
  does store is in UTC (\<open>decoded_time_location\<close>).
\<close>

theorem UnmarshalText_empty_keeps_location:
  "zero_UnmarshalText (zero_NewTimestamp timeValue2 True) [] = (zero_NewTimestamp timeValue2 True, None)
   \<and> Valid (fst (zero_UnmarshalText (zero_NewTimestamp timeValue2 True) []))
   \<and> Time_Location (Time (fst (zero_UnmarshalText (zero_NewTimestamp timeValue2 True) []))) = Zone 1
   \<and> null_UnmarshalText (null_NewTimestamp timeValue2 True) [] = (null_NewTimestamp timeValue2 True, None)
   \<and> null_UnmarshalText (null_NewTimestamp timeValue2 True) ''null'' = (null_NewTimestamp timeValue2 True, None)"
  by (simp add: zero_UnmarshalText_def zero_Int64_UnmarshalText_def null_UnmarshalText_def
      null_Int64_UnmarshalText_def zero_NewTimestamp_def null_NewTimestamp_def Time_Location_def timeValue2_def)

subsection \<open>The round trip through the structured form, package null\<close>

text \<open>
  Claim C4, as amended. For every representable time \<open>v\<close> (\<open>ms_representable\<close>: a whole
  number of milliseconds whose nanosecond count since the Unix epoch fits an int64;
  nothing is said here about other times) and for every receiver \<open>r\<close>,
  \<^verbatim>\<open>UnmarshalJSON\<close> of the bytes that \<^verbatim>\<open>MarshalJSON\<close> writes for
  \<^verbatim>\<open>TimestampFrom(v)\<close> returns no error and leaves in the receiver the valid
  wrapper of the same instant, in UTC and without monotonic reading. That wrapper is
  \<^verbatim>\<open>Equal\<close> to \<^verbatim>\<open>TimestampFrom(v)\<close>; it is \<^verbatim>\<open>TimestampFrom(v)\<close> itself
  (\<^verbatim>\<open>==\<close>, \<^verbatim>\<open>ExactEqual\<close>) exactly when \<open>v\<close> is in UTC and has no monotonic
  reading.
\<close>

theorem null_Timestamp_roundtrip:
  assumes "ms_representable v"
  shows "(\<exists>bs. null_MarshalJSON (null_TimestampFrom v) = Inr bs
            \<and> null_UnmarshalJSON r bs = (null_TimestampFrom (v\<lparr>mono := None, loc := UTC\<rparr>), None))
         \<and> null_Equal (null_TimestampFrom (v\<lparr>mono := None, loc := UTC\<rparr>)) (null_TimestampFrom v)
         \<and> (null_TimestampFrom (v\<lparr>mono := None, loc := UTC\<rparr>) = null_TimestampFrom v
              \<longleftrightarrow> mono v = None \<and> loc v = UTC)
         \<and> (null_ExactEqual (null_TimestampFrom (v\<lparr>mono := None, loc := UTC\<rparr>)) (null_TimestampFrom v)
              \<longleftrightarrow> mono v = None \<and> loc v = UTC)"
proof -
  let ?ms = "(sec v - 62135596800) * 1000 + nsec v div 1000000"
  have enc: "null_MarshalJSON (null_TimestampFrom v) = Inr (FormatInt ?ms)"
    by (simp add: null_MarshalJSON_def null_TimestampFrom_def null_NewTimestamp_def
        json_Marshal_int64_def millis_of_representable(1) [OF assms])
  have "in_int64 ((sec v - 62135596800) * 1000000000 + nsec v)"
    using assms unfolding ms_representable_def unixToInternal_def by blast
  then have "in_int64 (?ms * 1000000)"
    by (simp only: millis_of_representable(2) [OF assms] UnixNano_in_range [OF assms])
  then have "in_int64 ?ms"
    by (simp add: in_int64_def)
  then have "json_int64 (FormatInt ?ms) = Inr ?ms"
    by (rule json_int64_FormatInt)
  then have "null_UnmarshalJSON r (FormatInt ?ms) = (null_TimestampFrom (decoded_time ?ms), None)"
    using FormatInt_not_null by (intro null_UnmarshalJSON_value)
  moreover have "\<lparr>sec = sec v, nsec = nsec v, mono = None, loc = UTC\<rparr> = v\<lparr>mono := None, loc := UTC\<rparr>"
    by (cases v) simp
  then have "decoded_time ?ms = v\<lparr>mono := None, loc := UTC\<rparr>"
    by (simp only: decoded_time_of_millis [OF assms])
  ultimately have dec:
    "null_UnmarshalJSON r (FormatInt ?ms) = (null_TimestampFrom (v\<lparr>mono := None, loc := UTC\<rparr>), None)"
    by simp
  have eq: "null_Equal (null_TimestampFrom (v\<lparr>mono := None, loc := UTC\<rparr>)) (null_TimestampFrom v)"
    by (simp add: null_Equal_def null_TimestampFrom_def null_NewTimestamp_def Time_Equal_def)
  have same: "v\<lparr>mono := None, loc := UTC\<rparr> = v \<longleftrightarrow> mono v = None \<and> loc v = UTC"
    by (cases v) auto
  have ident: "null_TimestampFrom (v\<lparr>mono := None, loc := UTC\<rparr>) = null_TimestampFrom v
      \<longleftrightarrow> mono v = None \<and> loc v = UTC"
    using same by (simp add: null_TimestampFrom_def null_NewTimestamp_def)
  have exact: "null_ExactEqual (null_TimestampFrom (v\<lparr>mono := None, loc := UTC\<rparr>)) (null_TimestampFrom v)
      \<longleftrightarrow> mono v = None \<and> loc v = UTC"
    using same by (simp add: null_ExactEqual_def null_TimestampFrom_def null_NewTimestamp_def)
  from enc dec eq ident exact show ?thesis
    by blast
qed

theorem null_Timestamp_roundtrip_witness:
  "ms_representable timeValue1
   \<and> null_MarshalJSON (null_TimestampFrom timeValue1) = Inr timestampString
   \<and> null_UnmarshalJSON (null_NewTimestamp time_zero False) timestampString
        = (null_TimestampFrom timeValue1, None)
   \<and> null_Equal (null_TimestampFrom timeValue1) (null_TimestampFrom timeValue1)
   \<and> null_ExactEqual (null_TimestampFrom timeValue1) (null_TimestampFrom timeValue1)"
proof -
  have h: "ms_representable timeValue1"
    by (simp add: ms_representable_def timeValue1_def unixToInternal_def in_int64_def)
  have u: "timeValue1\<lparr>mono := None, loc := UTC\<rparr> = timeValue1"
    by (simp add: timeValue1_def)
  have m: "mono timeValue1 = None \<and> loc timeValue1 = UTC"
    by (simp add: timeValue1_def)
  from null_Timestamp_roundtrip [OF h, of "null_NewTimestamp time_zero False"] m
  obtain bs where
    "null_MarshalJSON (null_TimestampFrom timeValue1) = Inr bs"
    "null_UnmarshalJSON (null_NewTimestamp time_zero False) bs = (null_TimestampFrom timeValue1, None)"
    "null_Equal (null_TimestampFrom timeValue1) (null_TimestampFrom timeValue1)"
    "null_ExactEqual (null_TimestampFrom timeValue1) (null_TimestampFrom timeValue1)"
    unfolding u by blast
  with h show ?thesis
    by (simp add: null_MarshalJSON_timeValue1 timestampString_def)
qed

text \<open>
  The claim as first stated asks for the wrapper that was encoded. \<open>timeValue2\<close> is
  representable: it is the instant of \<open>timeValue1\<close>, a whole number of milliseconds in
  range, read in another zone. Its round trip stores \<open>timeValue1\<close>, in UTC, since the
  decoder builds every time from \<^verbatim>\<open>time.UnixMilli(0).UTC()\<close>: the result is
  \<^verbatim>\<open>Equal\<close> to \<^verbatim>\<open>TimestampFrom(timeValue2)\<close>, and it is neither that wrapper nor
  \<^verbatim>\<open>ExactEqual\<close> to it.
\<close>

theorem null_Timestamp_roundtrip_counterexample:
  "ms_representable timeValue2
   \<and> null_MarshalJSON (null_TimestampFrom timeValue2) = Inr ''1356124881000''
   \<and> null_UnmarshalJSON (null_NewTimestamp time_zero False) ''1356124881000''
        = (null_TimestampFrom timeValue1, None)
   \<and> null_TimestampFrom timeValue1 \<noteq> null_TimestampFrom timeValue2
   \<and> \<not> null_ExactEqual (null_TimestampFrom timeValue1) (null_TimestampFrom timeValue2)
   \<and> null_Equal (null_TimestampFrom timeValue1) (null_TimestampFrom timeValue2)"
proof -
  have h: "ms_representable timeValue2"
    by (simp add: ms_representable_def timeValue2_def unixToInternal_def in_int64_def)
  have b: "null_UnmarshalJSON (null_NewTimestamp time_zero False) ''1356124881000''
        = (null_TimestampFrom timeValue1, None)"
    using null_UnmarshalJSON_value [OF _ json_int64_timestampString]
    by (simp add: decoded_time_timestampString)
  have c: "null_TimestampFrom timeValue1 \<noteq> null_TimestampFrom timeValue2"
    by (simp add: null_TimestampFrom_def null_NewTimestamp_def timeValue1_def timeValue2_def)
  have d: "\<not> null_ExactEqual (null_TimestampFrom timeValue1) (null_TimestampFrom timeValue2)"
    by (simp add: null_ExactEqual_def null_TimestampFrom_def null_NewTimestamp_def
        timeValue1_def timeValue2_def)
  have e: "null_Equal (null_TimestampFrom timeValue1) (null_TimestampFrom timeValue2)"
    by (simp add: null_Equal_def null_TimestampFrom_def null_NewTimestamp_def Time_Equal_def
        timeValue1_def timeValue2_def)
  from h b c d e show ?thesis
    by (simp add: null_MarshalJSON_timeValue2)
qed

end
